theory Spec2Isabelle
  imports Complex_Main
begin

section \<open>Numbers\<close>

text \<open>
  The program computes with NumPy's float64. The embedding takes the finite values as real
  numbers: rounding, overflow and the sign of zero are outside the model, and an equality
  of results below is an equality of real numbers. Two operations that leave the finite
  numbers are kept as the program has them, since it has no check before either: the
  division \<^verbatim>\<open>top / bottom\<close> of the two integrals, and the logarithm of the magnitude
  converter. NumPy raises nothing there (it prints a RuntimeWarning) and returns an infinity
  or not-a-number. The divisions inside the arrays (by a wavelength, by the spacings of the
  wavelength grid) are divisions of real numbers: where such a divisor is zero, float64 has
  an infinity or not-a-number and the model's number has no meaning.
\<close>

datatype fval = Fin real | PInf | NInf | NaN

text \<open>\<^verbatim>\<open>top / bottom\<close> on two float64 scalars.\<close>

definition np_true_divide :: "real \<Rightarrow> real \<Rightarrow> fval" where
  "np_true_divide a b =
     (if b = 0 then (if a = 0 then NaN else if 0 < a then PInf else NInf)
      else Fin (a / b))"

text \<open>\<^verbatim>\<open>np.log10(x)\<close>.\<close>

fun np_log10 :: "fval \<Rightarrow> fval" where
  "np_log10 (Fin x) = (if 0 < x then Fin (log 10 x) else if x = 0 then NInf else NaN)"
| "np_log10 PInf = PInf"
| "np_log10 NInf = NaN"
| "np_log10 NaN = NaN"

text \<open>A float64 times a finite constant, and a float64 minus a finite constant.\<close>

fun fscale :: "real \<Rightarrow> fval \<Rightarrow> fval" where
  "fscale k (Fin x) = Fin (k * x)"
| "fscale k PInf = (if 0 < k then PInf else if k < 0 then NInf else NaN)"
| "fscale k NInf = (if 0 < k then NInf else if k < 0 then PInf else NaN)"
| "fscale k NaN = NaN"

fun fsub :: "fval \<Rightarrow> fval \<Rightarrow> fval" where
  "fsub (Fin a) (Fin b) = Fin (a - b)"
| "fsub NaN _ = NaN"
| "fsub _ NaN = NaN"
| "fsub PInf PInf = NaN"
| "fsub NInf NInf = NaN"
| "fsub PInf _ = PInf"
| "fsub NInf _ = NInf"
| "fsub (Fin a) PInf = NInf"
| "fsub (Fin a) NInf = PInf"

fun fneg :: "fval \<Rightarrow> fval" where
  "fneg (Fin a) = Fin (- a)"
| "fneg PInf = NInf"
| "fneg NInf = PInf"
| "fneg NaN = NaN"

section \<open>Units and quantities (astropy.units)\<close>

text \<open>
  A unit is its factor to the SI base units and its dimension, the powers of length, mass and
  time. Two units are equivalent when their dimensions agree; \<^verbatim>\<open>Quantity.to\<close> raises
  UnitConversionError otherwise.
\<close>

record Unit =
  scale :: real
  length_pow :: int
  mass_pow :: int
  time_pow :: int

definition unit_mul :: "Unit \<Rightarrow> Unit \<Rightarrow> Unit" where
  "unit_mul u v = \<lparr>scale = scale u * scale v, length_pow = length_pow u + length_pow v,
     mass_pow = mass_pow u + mass_pow v, time_pow = time_pow u + time_pow v\<rparr>"

definition unit_div :: "Unit \<Rightarrow> Unit \<Rightarrow> Unit" where
  "unit_div u v = \<lparr>scale = scale u / scale v, length_pow = length_pow u - length_pow v,
     mass_pow = mass_pow u - mass_pow v, time_pow = time_pow u - time_pow v\<rparr>"

definition is_equivalent :: "Unit \<Rightarrow> Unit \<Rightarrow> bool" where
  "is_equivalent u v \<longleftrightarrow>
     length_pow u = length_pow v \<and> mass_pow u = mass_pow v \<and> time_pow u = time_pow v"

text \<open>
  The errors. The first three are what the libraries raise on the paths of this program;
  EmptyOverlapError and DomainError are the names of the specification's taxonomy.
\<close>

datatype error =
  UnitConversionError | ValueError | IndexError | EmptyOverlapError | DomainError

text \<open>
  An exception leaves the function at the call that raises it: \<open>and_then r f\<close> goes on with
  \<open>f\<close> when \<open>r\<close> is a value and is the exception otherwise.
\<close>

fun and_then :: "error + 'a \<Rightarrow> ('a \<Rightarrow> error + 'b) \<Rightarrow> error + 'b" where
  "and_then (Inl e) f = Inl e"
| "and_then (Inr v) f = f v"

text \<open>The factor by which a value in unit \<open>u\<close> is multiplied to express it in unit \<open>v\<close>.\<close>

definition unit_to :: "Unit \<Rightarrow> Unit \<Rightarrow> error + real" where
  "unit_to u v = (if is_equivalent u v then Inr (scale u / scale v) else Inl UnitConversionError)"

definition metre :: Unit where
  "metre = \<lparr>scale = 1, length_pow = 1, mass_pow = 0, time_pow = 0\<rparr>"

definition nanometre :: Unit where
  "nanometre = \<lparr>scale = 1 / 10 ^ 9, length_pow = 1, mass_pow = 0, time_pow = 0\<rparr>"

definition metre_per_second :: Unit where
  "metre_per_second = \<lparr>scale = 1, length_pow = 1, mass_pow = 0, time_pow = - 1\<rparr>"

text \<open>\<^verbatim>\<open>u.Jy\<close>: 1e-26 W / (m2 Hz), that is 1e-26 kg / s2.\<close>

definition Jy :: Unit where
  "Jy = \<lparr>scale = 1 / 10 ^ 26, length_pow = 0, mass_pow = 1, time_pow = - 2\<rparr>"

text \<open>Power per area per wavelength, W / m3: a unit of flux density per wavelength.\<close>

definition watt_per_m3 :: Unit where
  "watt_per_m3 = \<lparr>scale = 1, length_pow = - 1, mass_pow = 1, time_pow = - 3\<rparr>"

text \<open>\<^verbatim>\<open>astropy.constants.c\<close>, in m / s.\<close>

definition c_value :: real where
  "c_value = 299792458"

text \<open>An array quantity (the spectrum's and the filter's columns) and a scalar quantity.\<close>

record quantity_array =
  values_of :: "real list"
  unit_of :: Unit

record quantity =
  value_of :: fval
  q_unit :: Unit

section \<open>The magnitude converter\<close>

text \<open>
  \<^verbatim>\<open>
  def flux2ABMag(flux):
      return -2.5 * np.log10(flux.to(u.Jy).value) - 48.6
  \<close>
\<close>

definition quantity_to :: "quantity \<Rightarrow> Unit \<Rightarrow> error + fval" where
  "quantity_to q v = and_then (unit_to (q_unit q) v) (\<lambda>k. Inr (fscale k (value_of q)))"

definition flux2ABMag :: "quantity \<Rightarrow> error + fval" where
  "flux2ABMag flux =
     and_then (quantity_to flux Jy) (\<lambda>v. Inr (fsub (fscale (- 2.5) (np_log10 v)) (Fin 48.6)))"

section \<open>NumPy and SciPy\<close>

text \<open>
  \<^verbatim>\<open>a.min()\<close> and \<^verbatim>\<open>a.max()\<close>: the reduction of an empty array raises ValueError.
\<close>

fun np_min :: "real list \<Rightarrow> error + real" where
  "np_min [] = Inl ValueError"
| "np_min (x # xs) = Inr (fold min xs x)"

fun np_max :: "real list \<Rightarrow> error + real" where
  "np_max [] = Inl ValueError"
| "np_max (x # xs) = Inr (fold max xs x)"

text \<open>
  \<^verbatim>\<open>a[select]\<close> with a boolean mask: the elements at the True positions, in order;
  a mask of another length raises IndexError.
\<close>

definition mask_index :: "'a list \<Rightarrow> bool list \<Rightarrow> error + 'a list" where
  "mask_index a select =
     (if length select \<noteq> length a then Inl IndexError
      else Inr (map fst (filter snd (zip a select))))"

text \<open>
  \<^verbatim>\<open>np.interp(x, xp, fp)\<close>, one-dimensional linear interpolation on increasing sample
  points \<open>xp\<close>. Left of the first sample point the result is \<open>fp[0]\<close>, from the last one on
  it is \<open>fp[-1]\<close>; in between, with \<open>j\<close> the last index such that \<open>xp[j] \<le> x\<close>, it is
  \<open>fp[j]\<close> when \<open>x = xp[j]\<close> and \<open>slope * (x - xp[j]) + fp[j]\<close> otherwise, where
  \<open>slope = (fp[j+1] - fp[j]) / (xp[j+1] - xp[j])\<close>. NumPy finds \<open>j\<close> by binary search and
  does not check that \<open>xp\<close> increases; the scan below finds the same \<open>j\<close> when it does.
  An empty \<open>xp\<close>, or an \<open>fp\<close> of another length, raises ValueError.
\<close>

fun interp_scan :: "real \<Rightarrow> (real \<times> real) list \<Rightarrow> real" where
  "interp_scan x [] = 0"
| "interp_scan x [(x0, y0)] = y0"
| "interp_scan x ((x0, y0) # (x1, y1) # ps) =
     (if x < x1 then
        (if x = x0 then y0 else (y1 - y0) / (x1 - x0) * (x - x0) + y0)
      else interp_scan x ((x1, y1) # ps))"

definition interp_at :: "real list \<Rightarrow> real list \<Rightarrow> real \<Rightarrow> real" where
  "interp_at xp fp x = (if x < hd xp then hd fp else interp_scan x (zip xp fp))"

definition np_interp :: "real list \<Rightarrow> real list \<Rightarrow> real list \<Rightarrow> error + real list" where
  "np_interp x xp fp =
     (if xp = [] then Inl ValueError
      else if length fp \<noteq> length xp then Inl ValueError
      else Inr (map (interp_at xp fp) x))"

text \<open>
  \<^verbatim>\<open>scipy.integrate.simps(y, x)\<close>, the composite Simpson rule for samples that need not
  be evenly spaced, with its default \<^verbatim>\<open>even='avg'\<close>.
  \<^verbatim>\<open>
  def _basic_simps(y, start, stop, x, dx, axis):
      ...
      h = np.diff(x, axis=axis)
      h0 = h[sl0]; h1 = h[sl1]
      hsum = h0 + h1; hprod = h0 * h1; h0divh1 = h0 / h1
      tmp = hsum/6.0 * (y[slice0]*(2-1.0/h0divh1) + y[slice1]*hsum*hsum/hprod +
                        y[slice2]*(2-h0divh1))
      result = np.sum(tmp, axis=axis)
  \<close>
  where the slices take every second index from \<open>start\<close>, \<open>start + 1\<close> and \<open>start + 2\<close>:
  one term for each pair of neighbouring intervals. \<open>basic_simps y x\<close> is the sum of these
  terms from the head of the lists on.
\<close>

fun basic_simps :: "real list \<Rightarrow> real list \<Rightarrow> real" where
  "basic_simps (y0 # y1 # y2 # ys) (x0 # x1 # x2 # xs) =
     (let h0 = x1 - x0; h1 = x2 - x1;
          hsum = h0 + h1; hprod = h0 * h1; h0divh1 = h0 / h1
      in hsum / 6 * (y0 * (2 - 1 / h0divh1) + y1 * hsum * hsum / hprod + y2 * (2 - h0divh1)))
     + basic_simps (y2 # ys) (x2 # xs)"
| "basic_simps _ _ = 0"

text \<open>
  \<^verbatim>\<open>
  def simps(y, x=None, dx=1, axis=-1, even='avg'):
      N = y.shape[axis]
      ...
          if x.shape[axis] != N:
              raise ValueError(...)
      if N % 2 == 0:
          val = 0.0
          result = 0.0
          ...
          if even in ['avg', 'first']:
              last_dx = x[-1] - x[-2]
              val += 0.5*last_dx*(y[-1]+y[-2])
              result = _basic_simps(y, 0, N-3, x, dx, axis)
          if even in ['avg', 'last']:
              first_dx = x[1] - x[0]
              val += 0.5*first_dx*(y[1]+y[0])
              result += _basic_simps(y, 1, N-2, x, dx, axis)
          if even == 'avg':
              val /= 2.0
              result /= 2.0
          result = result + val
      else:
          result = _basic_simps(y, 0, N-2, x, dx, axis)
      return result
  \<close>
  This is the function as SciPy has it up to release 1.10. On empty arrays \<open>N % 2 == 0\<close> holds
  and \<open>x[-1]\<close> raises IndexError there; later releases correct the last interval of an even
  number of samples in another way and raise another exception on empty arrays. On a single
  sample every release returns 0. The statements below use the integrator on a non-empty
  selection and do not depend on the rule for an even number of samples.
\<close>

definition simps :: "real list \<Rightarrow> real list \<Rightarrow> error + real" where
  "simps y x =
     (let N = length y in
      if length x \<noteq> N then Inl ValueError
      else if N mod 2 = 0 then
        (if N = 0 then Inl IndexError
         else
           let last_dx = x ! (N - 1) - x ! (N - 2);
               val1 = 0.5 * last_dx * (y ! (N - 1) + y ! (N - 2));
               result1 = basic_simps y x;
               first_dx = x ! 1 - x ! 0;
               val2 = val1 + 0.5 * first_dx * (y ! 1 + y ! 0);
               result2 = result1 + basic_simps (tl y) (tl x)
           in Inr (result2 / 2 + val2 / 2))
      else Inr (basic_simps y x))"

section \<open>Spectrum, Filter and Colour\<close>

text \<open>
  A spectrum is any object with the attributes \<open>wavelengths\<close> and \<open>flux_density\<close>, two array
  quantities. A filter holds its wavelength grid (an array quantity), its response (a plain
  array) and its name, which is None by default.
\<close>

record Spectrum =
  wavelengths :: quantity_array
  flux_density :: quantity_array

record Filter =
  wavelengths :: quantity_array
  response :: "real list"
  name :: "string option"

text \<open>
  \<^verbatim>\<open>
  def propagate_flux_density(self, spectrum):
      select = spectrum.wavelengths > self.wavelengths.min()
      select &= spectrum.wavelengths < self.wavelengths.max()
      flux_density = spectrum.flux_density[select]
      wavelength = spectrum.wavelengths[select]
  \<close>
  A comparison of two quantities converts the right operand to the unit of the left one and
  raises when the units are not equivalent. \<open>select_samples\<close> is these four lines; it
  returns the values of \<open>flux_density\<close> and of \<open>wavelength\<close>, whose units are the spectrum's.
\<close>

definition select_samples :: "Filter \<Rightarrow> Spectrum \<Rightarrow> error + (real list \<times> real list)" where
  "select_samples self spectrum =
     (let sw = Spectrum.wavelengths spectrum;
          sf = Spectrum.flux_density spectrum;
          fw = Filter.wavelengths self
      in
      and_then (np_min (values_of fw)) (\<lambda>lo.
      and_then (unit_to (unit_of fw) (unit_of sw)) (\<lambda>k.
      and_then (np_max (values_of fw)) (\<lambda>hi.
      let select = map2 (\<and>) (map (\<lambda>w. lo * k < w) (values_of sw))
                              (map (\<lambda>w. w < hi * k) (values_of sw))
      in
      and_then (mask_index (values_of sf) select) (\<lambda>flux_density'.
      and_then (mask_index (values_of sw) select) (\<lambda>wavelength.
      Inr (flux_density', wavelength)))))))"

text \<open>
  \<^verbatim>\<open>
      frequency = c / wavelength
      interpolated_response = np.interp(wavelength.to(self.wavelengths.unit), self.wavelengths, self.response)

      flux_density_jansky = (flux_density * wavelength / frequency).to(u.Jy)
      top = simpsons_rule_integration(interpolated_response * flux_density_jansky / wavelength, wavelength)
      bottom = simpsons_rule_integration(interpolated_response / wavelength, wavelength)
      return top / bottom * flux_density_jansky.unit
  \<close>
  The integrator reads the plain values of its arguments.
\<close>

definition propagate_flux_density :: "Filter \<Rightarrow> Spectrum \<Rightarrow> error + quantity" where
  "propagate_flux_density self spectrum =
     (let sw = Spectrum.wavelengths spectrum;
          sf = Spectrum.flux_density spectrum;
          fw = Filter.wavelengths self
      in
      and_then (select_samples self spectrum) (\<lambda>(flux_density', wavelength).
      let frequency = map (\<lambda>w. c_value / w) wavelength;
          frequency_unit = unit_div metre_per_second (unit_of sw)
      in
      and_then (unit_to (unit_of sw) (unit_of fw)) (\<lambda>k'.
      and_then (np_interp (map (\<lambda>w. w * k') wavelength) (values_of fw) (response self))
        (\<lambda>interpolated_response.
      and_then (unit_to (unit_div (unit_mul (unit_of sf) (unit_of sw)) frequency_unit) Jy)
        (\<lambda>kj.
      let flux_density_jansky =
            map (\<lambda>v. v * kj) (map2 (/) (map2 (*) flux_density' wavelength) frequency)
      in
      and_then
        (simps (map2 (/) (map2 (*) interpolated_response flux_density_jansky) wavelength)
           wavelength) (\<lambda>top'.
      and_then (simps (map2 (/) interpolated_response wavelength) wavelength) (\<lambda>bottom'.
      Inr \<lparr>value_of = np_true_divide top' bottom', q_unit = Jy\<rparr>)))))))"

text \<open>
  \<^verbatim>\<open>
  def __repr__(self):
      return "<Filter name={}>".format(self.name)
  \<close>
  \<^verbatim>\<open>format\<close> renders None as the text None.
\<close>

definition format_name :: "string option \<Rightarrow> string" where
  "format_name n = (case n of None \<Rightarrow> ''None'' | Some s \<Rightarrow> s)"

definition Filter_repr :: "Filter \<Rightarrow> string" where
  "Filter_repr self = ''<Filter name='' @ format_name (name self) @ ''>''"

text \<open>
  \<^verbatim>\<open>
  class Colour(object):
      def __init__(self, filter1, filter2):
          self.filters = [filter1, filter2]

      def __call__(self, spectrum):
          flux1 = self.filters[0](spectrum)
          flux2 = self.filters[1](spectrum)
          return flux2ABMag(flux1) - flux2ABMag(flux2)

      def __repr__(self):
          return "${} - {}$".format(self.filters[0].name, self.filters[1].name)
  \<close>
  Calling a filter is \<open>propagate_flux_density\<close>.
\<close>

datatype Colour = Colour Filter Filter

fun Colour_call :: "Colour \<Rightarrow> Spectrum \<Rightarrow> error + fval" where
  "Colour_call (Colour filter1 filter2) spectrum =
     and_then (propagate_flux_density filter1 spectrum) (\<lambda>flux1.
     and_then (propagate_flux_density filter2 spectrum) (\<lambda>flux2.
     and_then (flux2ABMag flux1) (\<lambda>m1.
     and_then (flux2ABMag flux2) (\<lambda>m2.
     Inr (fsub m1 m2)))))"

fun Colour_repr :: "Colour \<Rightarrow> string" where
  "Colour_repr (Colour filter1 filter2) =
     ''$'' @ format_name (name filter1) @ '' - '' @ format_name (name filter2) @ ''$''"

section \<open>The notions of the specification\<close>

text \<open>
  The filter's wavelength support is the open interval between the least and the greatest of
  its wavelengths. \<open>in_support F u w\<close> says that a wavelength of value \<open>w\<close> in unit \<open>u\<close> lies
  strictly inside it.
\<close>

definition in_support :: "Filter \<Rightarrow> Unit \<Rightarrow> real \<Rightarrow> bool" where
  "in_support F u w \<longleftrightarrow>
     Min (set (values_of (Filter.wavelengths F))) *
       (scale (unit_of (Filter.wavelengths F)) / scale u) < w \<and>
     w < Max (set (values_of (Filter.wavelengths F))) *
       (scale (unit_of (Filter.wavelengths F)) / scale u)"

text \<open>The samples of a spectrum, flux density and wavelength, that lie in the support.\<close>

definition samples_in_support :: "Filter \<Rightarrow> Spectrum \<Rightarrow> (real \<times> real) list" where
  "samples_in_support F s =
     filter (\<lambda>(f, w). in_support F (unit_of (Spectrum.wavelengths s)) w)
       (zip (values_of (Spectrum.flux_density s)) (values_of (Spectrum.wavelengths s)))"

text \<open>
  The filter's response at a wavelength of value \<open>w\<close> in unit \<open>u\<close>: the linear interpolation of
  the response curve on the filter's own grid, at the wavelength expressed in the grid's unit.
\<close>

definition response_at :: "Filter \<Rightarrow> Unit \<Rightarrow> real \<Rightarrow> real" where
  "response_at F u w =
     interp_at (values_of (Filter.wavelengths F)) (response F)
       (w * (scale u / scale (unit_of (Filter.wavelengths F))))"

text \<open>
  The flux density per frequency, in jansky, of a flux density per wavelength of value \<open>f\<close> in
  unit \<open>fu\<close> at a wavelength of value \<open>w\<close> in unit \<open>wu\<close>: \<open>f * w / frequency\<close> with
  \<open>frequency = c / w\<close>, a value in the unit \<open>fu * wu / ((m / s) / wu)\<close>, expressed in jansky.
\<close>

definition frequency_flux_density :: "Unit \<Rightarrow> Unit \<Rightarrow> real \<Rightarrow> real \<Rightarrow> real" where
  "frequency_flux_density fu wu f w =
     f * w / (c_value / w) *
       (scale fu * scale wu / (scale metre_per_second / scale wu) / scale Jy)"

text \<open>The two integrands, sample by sample.\<close>

definition numerator_samples :: "Filter \<Rightarrow> Spectrum \<Rightarrow> real list" where
  "numerator_samples F s =
     map (\<lambda>(f, w).
            response_at F (unit_of (Spectrum.wavelengths s)) w *
            frequency_flux_density (unit_of (Spectrum.flux_density s))
              (unit_of (Spectrum.wavelengths s)) f w / w)
       (samples_in_support F s)"

definition denominator_samples :: "Filter \<Rightarrow> Spectrum \<Rightarrow> real list" where
  "denominator_samples F s =
     map (\<lambda>(f, w). response_at F (unit_of (Spectrum.wavelengths s)) w / w)
       (samples_in_support F s)"

text \<open>A text contains another one: Python's \<^verbatim>\<open>sub in text\<close>.\<close>

fun contains :: "string \<Rightarrow> string \<Rightarrow> bool" where
  "contains [] sub = (sub = [])"
| "contains (c # cs) sub = (take (length sub) (c # cs) = sub \<or> contains cs sub)"

section \<open>Examples\<close>

text \<open>
  A filter on 400 nm to 500 nm without a name, a spectrum with three samples inside the
  filter's support, and one with a single sample inside it.
\<close>

definition example_filter :: Filter where
  "example_filter =
     \<lparr>wavelengths = \<lparr>values_of = [400, 450, 500], unit_of = nanometre\<rparr>,
      response = [1 / 2, 1, 1 / 2], name = None\<rparr>"

definition example_spectrum :: Spectrum where
  "example_spectrum =
     \<lparr>Spectrum.wavelengths = \<lparr>values_of = [350, 420, 450, 480, 550], unit_of = nanometre\<rparr>,
      flux_density = \<lparr>values_of = [2, 3, 5, 7, 11], unit_of = watt_per_m3\<rparr>\<rparr>"

definition narrow_spectrum :: Spectrum where
  "narrow_spectrum =
     \<lparr>Spectrum.wavelengths = \<lparr>values_of = [350, 450, 550], unit_of = nanometre\<rparr>,
      flux_density = \<lparr>values_of = [1, 1, 1], unit_of = watt_per_m3\<rparr>\<rparr>"

text \<open>
  A spectrum that agrees with \<open>example_spectrum\<close> inside the filter's support and differs
  from it outside.
\<close>

definition other_spectrum :: Spectrum where
  "other_spectrum =
     \<lparr>Spectrum.wavelengths = \<lparr>values_of = [100, 420, 450, 480], unit_of = nanometre\<rparr>,
      flux_density = \<lparr>values_of = [9, 3, 5, 7], unit_of = watt_per_m3\<rparr>\<rparr>"

text \<open>A second filter, flat on the same range, with a name.\<close>

definition flat_filter :: Filter where
  "flat_filter =
     \<lparr>wavelengths = \<lparr>values_of = [400, 500], unit_of = nanometre\<rparr>,
      response = [1, 1], name = Some ''flat''\<rparr>"

section \<open>The magnitude converter: formula and domain\<close>

lemma quantity_to_Jy_Jy: "quantity_to \<lparr>value_of = Fin x, q_unit = Jy\<rparr> Jy = Inr (Fin x)"
  by (simp add: quantity_to_def unit_to_def is_equivalent_def Jy_def)

text \<open>
  Claim C5. For a flux density that converts to jansky with a positive value \<open>v\<close>, the
  magnitude converter returns \<open>-2.5 * log10(v) - 48.6\<close>.
\<close>

theorem flux2ABMag_formula:
  assumes "quantity_to flux Jy = Inr (Fin v)" and "0 < v"
  shows "flux2ABMag flux = Inr (Fin (- 2.5 * log 10 v - 48.6))"
  using assms by (simp add: flux2ABMag_def)

theorem flux2ABMag_formula_witness:
  "quantity_to \<lparr>value_of = Fin 1, q_unit = Jy\<rparr> Jy = Inr (Fin 1) \<and> (0::real) < 1 \<and>
   flux2ABMag \<lparr>value_of = Fin 1, q_unit = Jy\<rparr> = Inr (Fin (- 48.6))"
proof -
  have h: "quantity_to \<lparr>value_of = Fin 1, q_unit = Jy\<rparr> Jy = Inr (Fin 1)"
    by (rule quantity_to_Jy_Jy)
  show ?thesis
    using h flux2ABMag_formula [OF h] by simp
qed

text \<open>
  Claim C3, as the specification states it: a flux density whose value in jansky is not
  positive makes the magnitude converter fail with DomainError. The program has no such
  check. At zero jansky the logarithm is minus infinity and the converter returns plus
  infinity.
\<close>

theorem flux2ABMag_zero_counterexample:
  "quantity_to \<lparr>value_of = Fin 0, q_unit = Jy\<rparr> Jy = Inr (Fin 0) \<and>
   flux2ABMag \<lparr>value_of = Fin 0, q_unit = Jy\<rparr> = Inr PInf \<and>
   flux2ABMag \<lparr>value_of = Fin 0, q_unit = Jy\<rparr> \<noteq> Inl DomainError"
  by (simp add: flux2ABMag_def quantity_to_Jy_Jy)

text \<open>
  Claim C3, amended. For a flux density that converts to jansky with a value \<open>v \<le> 0\<close>, the
  magnitude converter raises nothing: it returns plus infinity when \<open>v = 0\<close> and not-a-number
  when \<open>v < 0\<close>.
\<close>

theorem flux2ABMag_nonpositive:
  assumes "quantity_to flux Jy = Inr (Fin v)" and "v \<le> 0"
  shows "flux2ABMag flux = Inr (if v = 0 then PInf else NaN)"
  using assms by (simp add: flux2ABMag_def)

theorem flux2ABMag_nonpositive_witness:
  "quantity_to \<lparr>value_of = Fin (- 3), q_unit = Jy\<rparr> Jy = Inr (Fin (- 3)) \<and>
   (- 3 :: real) \<le> 0 \<and>
   flux2ABMag \<lparr>value_of = Fin (- 3), q_unit = Jy\<rparr> = Inr NaN"
proof -
  have h: "quantity_to \<lparr>value_of = Fin (- 3), q_unit = Jy\<rparr> Jy = Inr (Fin (- 3))"
    by (rule quantity_to_Jy_Jy)
  show ?thesis
    using h flux2ABMag_nonpositive [OF h] by simp
qed

section \<open>The selection of the samples\<close>

lemma np_min_eq: "xs \<noteq> [] \<Longrightarrow> np_min xs = Inr (Min (set xs))"
  by (cases xs) (simp_all add: Min.set_eq_fold [symmetric])

lemma np_max_eq: "xs \<noteq> [] \<Longrightarrow> np_max xs = Inr (Max (set xs))"
  by (cases xs) (simp_all add: Max.set_eq_fold [symmetric])

lemma filter_zip_mask:
  "length a = length ws \<Longrightarrow>
   map fst (filter snd (zip a (map2 (\<and>) (map P ws) (map Q ws)))) =
   map fst (filter (\<lambda>(x, w). P w \<and> Q w) (zip a ws))"
  by (induction a ws rule: list_induct2) simp_all

lemma mask_index_and:
  "length a = length ws \<Longrightarrow>
   mask_index a (map2 (\<and>) (map P ws) (map Q ws)) =
   Inr (map fst (filter (\<lambda>(x, w). P w \<and> Q w) (zip a ws)))"
  by (simp add: mask_index_def filter_zip_mask)

lemma mask_index_and_length:
  "length a \<noteq> length ws \<Longrightarrow>
   mask_index a (map2 (\<and>) (map P ws) (map Q ws)) = Inl IndexError"
  by (simp add: mask_index_def)

lemma filter_zip_self:
  "map fst (filter (\<lambda>(x, w). P w) (zip ws ws)) = filter P ws"
  by (induction ws) simp_all

lemma filter_zip_snd:
  "length a = length ws \<Longrightarrow> map snd (filter (\<lambda>(x, w). P w) (zip a ws)) = filter P ws"
  by (induction a ws rule: list_induct2) simp_all

lemma select_samples_char:
  assumes "values_of (Filter.wavelengths F) \<noteq> []"
    and "is_equivalent (unit_of (Filter.wavelengths F)) (unit_of (Spectrum.wavelengths s))"
    and "length (values_of (Spectrum.flux_density s)) = length (values_of (Spectrum.wavelengths s))"
  shows "select_samples F s =
           Inr (map fst (samples_in_support F s), map snd (samples_in_support F s))"
proof -
  let ?P = "in_support F (unit_of (Spectrum.wavelengths s))"
  have w: "map fst (filter (\<lambda>(x, w). ?P w)
              (zip (values_of (Spectrum.wavelengths s)) (values_of (Spectrum.wavelengths s)))) =
           map snd (filter (\<lambda>(x, w). ?P w)
              (zip (values_of (Spectrum.flux_density s)) (values_of (Spectrum.wavelengths s))))"
    using assms(3) by (simp add: filter_zip_self filter_zip_snd)
  show ?thesis
    using assms w
    by (simp add: select_samples_def Let_def np_min_eq np_max_eq unit_to_def mask_index_and
        samples_in_support_def in_support_def)
qed

lemma select_samples_no_grid:
  "values_of (Filter.wavelengths F) = [] \<Longrightarrow> select_samples F s = Inl ValueError"
  by (simp add: select_samples_def)

lemma select_samples_units:
  "values_of (Filter.wavelengths F) \<noteq> [] \<Longrightarrow>
   \<not> is_equivalent (unit_of (Filter.wavelengths F)) (unit_of (Spectrum.wavelengths s)) \<Longrightarrow>
   select_samples F s = Inl UnitConversionError"
  by (simp add: select_samples_def np_min_eq unit_to_def)

lemma select_samples_lengths:
  "values_of (Filter.wavelengths F) \<noteq> [] \<Longrightarrow>
   is_equivalent (unit_of (Filter.wavelengths F)) (unit_of (Spectrum.wavelengths s)) \<Longrightarrow>
   length (values_of (Spectrum.flux_density s)) \<noteq> length (values_of (Spectrum.wavelengths s)) \<Longrightarrow>
   select_samples F s = Inl IndexError"
  by (simp add: select_samples_def np_min_eq np_max_eq unit_to_def Let_def mask_index_and_length)

lemma select_samples_InrD:
  assumes "select_samples F s = Inr (fd, wl)"
  shows "values_of (Filter.wavelengths F) \<noteq> []"
    and "is_equivalent (unit_of (Filter.wavelengths F)) (unit_of (Spectrum.wavelengths s))"
    and "length (values_of (Spectrum.flux_density s)) = length (values_of (Spectrum.wavelengths s))"
    and "fd = map fst (samples_in_support F s)"
    and "wl = map snd (samples_in_support F s)"
proof -
  show 1: "values_of (Filter.wavelengths F) \<noteq> []"
    using assms select_samples_no_grid by fastforce
  show 2: "is_equivalent (unit_of (Filter.wavelengths F)) (unit_of (Spectrum.wavelengths s))"
    using assms 1 select_samples_units by fastforce
  show 3: "length (values_of (Spectrum.flux_density s)) = length (values_of (Spectrum.wavelengths s))"
    using assms 1 2 select_samples_lengths by fastforce
  show "fd = map fst (samples_in_support F s)" "wl = map snd (samples_in_support F s)"
    using assms select_samples_char [OF 1 2 3] by simp_all
qed

text \<open>
  Claim C4. The selection keeps exactly the spectrum samples whose wavelength is strictly
  greater than the least and strictly less than the greatest wavelength of the filter, in
  their order; a sample at an endpoint is left out.
\<close>

theorem select_samples_strictly_inside:
  assumes "values_of (Filter.wavelengths F) \<noteq> []"
    and "is_equivalent (unit_of (Filter.wavelengths F)) (unit_of (Spectrum.wavelengths s))"
    and "length (values_of (Spectrum.flux_density s)) = length (values_of (Spectrum.wavelengths s))"
  shows "select_samples F s =
           Inr (map fst (samples_in_support F s), map snd (samples_in_support F s)) \<and>
         map snd (samples_in_support F s) =
           filter (in_support F (unit_of (Spectrum.wavelengths s)))
             (values_of (Spectrum.wavelengths s)) \<and>
         \<not> in_support F (unit_of (Spectrum.wavelengths s))
             (Min (set (values_of (Filter.wavelengths F))) *
               (scale (unit_of (Filter.wavelengths F)) / scale (unit_of (Spectrum.wavelengths s)))) \<and>
         \<not> in_support F (unit_of (Spectrum.wavelengths s))
             (Max (set (values_of (Filter.wavelengths F))) *
               (scale (unit_of (Filter.wavelengths F)) / scale (unit_of (Spectrum.wavelengths s))))"
proof -
  have "map snd (samples_in_support F s) =
          filter (in_support F (unit_of (Spectrum.wavelengths s)))
            (values_of (Spectrum.wavelengths s))"
    using assms(3) by (simp add: samples_in_support_def filter_zip_snd)
  then show ?thesis
    using select_samples_char [OF assms] by (simp add: in_support_def)
qed

lemma example_samples:
  "samples_in_support example_filter example_spectrum = [(3, 420), (5, 450), (7, 480)]"
  by (simp add: samples_in_support_def in_support_def example_filter_def example_spectrum_def
      nanometre_def)

lemma narrow_samples:
  "samples_in_support example_filter narrow_spectrum = [(1, 450)]"
  by (simp add: samples_in_support_def in_support_def example_filter_def narrow_spectrum_def
      nanometre_def)

theorem select_samples_strictly_inside_witness:
  "select_samples example_filter example_spectrum = Inr ([3, 5, 7], [420, 450, 480]) \<and>
   filter (in_support example_filter nanometre) [350, 420, 450, 480, 550] = [420, 450, 480] \<and>
   \<not> in_support example_filter nanometre 400 \<and> \<not> in_support example_filter nanometre 500"
proof -
  have 1: "values_of (Filter.wavelengths example_filter) \<noteq> []"
    by (simp add: example_filter_def)
  have 2: "is_equivalent (unit_of (Filter.wavelengths example_filter))
             (unit_of (Spectrum.wavelengths example_spectrum))"
    by (simp add: example_filter_def example_spectrum_def is_equivalent_def)
  have 3: "length (values_of (Spectrum.flux_density example_spectrum)) =
           length (values_of (Spectrum.wavelengths example_spectrum))"
    by (simp add: example_spectrum_def)
  have u: "unit_of (Spectrum.wavelengths example_spectrum) = nanometre"
       "values_of (Spectrum.wavelengths example_spectrum) = [350, 420, 450, 480, 550]"
       "values_of (Filter.wavelengths example_filter) = [400, 450, 500]"
       "unit_of (Filter.wavelengths example_filter) = nanometre"
    by (simp_all add: example_spectrum_def example_filter_def)
  have k: "scale nanometre \<noteq> 0"
    by (simp add: nanometre_def)
  show ?thesis
    using select_samples_strictly_inside [OF 1 2 3]
    by (simp add: example_samples u k)
qed

section \<open>The propagation as a quotient of two integrals\<close>

lemma is_equivalent_sym: "is_equivalent u v \<Longrightarrow> is_equivalent v u"
  by (simp add: is_equivalent_def)

lemma jansky_conversion:
  assumes "is_equivalent fu watt_per_m3" and "is_equivalent wu metre"
  shows "unit_to (unit_div (unit_mul fu wu) (unit_div metre_per_second wu)) Jy =
           Inr (scale fu * scale wu / (scale metre_per_second / scale wu) / scale Jy)"
  using assms
  by (simp add: unit_to_def is_equivalent_def unit_div_def unit_mul_def Jy_def
      metre_per_second_def watt_per_m3_def metre_def)

lemma numerator_list:
  "length fd = length wl \<Longrightarrow>
   map2 (/) (map2 (*) (map g (map (\<lambda>w. w * k') wl))
               (map (\<lambda>v. v * kj) (map2 (/) (map2 (*) fd wl) (map (\<lambda>w. c / w) wl)))) wl =
   map (\<lambda>(f, w). g (w * k') * (f * w / (c / w) * kj) / w) (zip fd wl)"
  by (induction fd wl rule: list_induct2) simp_all

lemma denominator_list:
  "length fd = length wl \<Longrightarrow>
   map2 (/) (map g (map (\<lambda>w. w * k') wl)) wl = map (\<lambda>(f, w). g (w * k') / w) (zip fd wl)"
  by (induction fd wl rule: list_induct2) simp_all

lemma simps_value:
  "length y = length x \<Longrightarrow> x \<noteq> [] \<Longrightarrow> \<exists>v. simps y x = Inr v"
  by (simp add: simps_def Let_def)

lemma simps_single: "simps [y] [x] = Inr 0"
  by (simp add: simps_def)

lemma propagate_char:
  assumes sel: "select_samples F s = Inr (fd, wl)"
    and resp: "length (response F) = length (values_of (Filter.wavelengths F))"
    and uf: "is_equivalent (unit_of (Spectrum.flux_density s)) watt_per_m3"
    and uw: "is_equivalent (unit_of (Spectrum.wavelengths s)) metre"
  shows "propagate_flux_density F s =
           and_then (simps (numerator_samples F s) wl) (\<lambda>top'.
           and_then (simps (denominator_samples F s) wl) (\<lambda>bottom'.
           Inr \<lparr>value_of = np_true_divide top' bottom', q_unit = Jy\<rparr>))"
proof -
  note D = select_samples_InrD [OF sel]
  have len: "length fd = length wl"
    by (simp add: D(4,5))
  have z: "zip fd wl = samples_in_support F s"
    by (simp add: D(4,5) zip_map_fst_snd)
  have k': "unit_to (unit_of (Spectrum.wavelengths s)) (unit_of (Filter.wavelengths F)) =
              Inr (scale (unit_of (Spectrum.wavelengths s)) / scale (unit_of (Filter.wavelengths F)))"
    using is_equivalent_sym [OF D(2)] by (simp add: unit_to_def)
  have interp: "\<And>x. np_interp x (values_of (Filter.wavelengths F)) (response F) =
              Inr (map (interp_at (values_of (Filter.wavelengths F)) (response F)) x)"
    using D(1) resp by (simp add: np_interp_def)
  let ?k' = "scale (unit_of (Spectrum.wavelengths s)) / scale (unit_of (Filter.wavelengths F))"
  let ?kj = "scale (unit_of (Spectrum.flux_density s)) * scale (unit_of (Spectrum.wavelengths s)) /
             (scale metre_per_second / scale (unit_of (Spectrum.wavelengths s))) / scale Jy"
  let ?g = "interp_at (values_of (Filter.wavelengths F)) (response F)"
  have top_list:
    "map2 (/) (map2 (*) (map ?g (map (\<lambda>w. w * ?k') wl))
        (map (\<lambda>v. v * ?kj) (map2 (/) (map2 (*) fd wl) (map (\<lambda>w. c_value / w) wl)))) wl =
     numerator_samples F s"
    unfolding numerator_list [OF len]
    by (simp only: z numerator_samples_def response_at_def frequency_flux_density_def)
  have bottom_list:
    "map2 (/) (map ?g (map (\<lambda>w. w * ?k') wl)) wl = denominator_samples F s"
    unfolding denominator_list [OF len]
    by (simp only: z denominator_samples_def response_at_def)
  show ?thesis
    by (simp only: propagate_flux_density_def Let_def sel and_then.simps case_prod_conv k' interp
        jansky_conversion [OF uf uw] top_list bottom_list)
qed

text \<open>The flux density per frequency is \<open>f * w\<^sup>2 / c\<close>, in the unit stated above.\<close>

lemma frequency_flux_density_square:
  "w \<noteq> 0 \<Longrightarrow>
   frequency_flux_density fu wu f w =
     f * w\<^sup>2 / c_value *
       (scale fu * scale wu / (scale metre_per_second / scale wu) / scale Jy)"
  by (simp add: frequency_flux_density_def power2_eq_square)

lemma length_numerator_samples: "length (numerator_samples F s) = length (samples_in_support F s)"
  by (simp add: numerator_samples_def)

lemma length_denominator_samples:
  "length (denominator_samples F s) = length (samples_in_support F s)"
  by (simp add: denominator_samples_def)

text \<open>
  Claim C1. For a filter and a spectrum whose wavelengths convert to the filter's unit,
  with at least one sample strictly inside the filter's support, the propagation returns
  the quotient of two Simpson integrals over the selected wavelengths, in jansky. The
  numerator integrates the interpolated response times the flux density per frequency
  (\<open>flux_density * wavelength / frequency\<close> with \<open>frequency = c / wavelength\<close>, in jansky)
  divided by the wavelength; the denominator integrates the interpolated response divided by
  the wavelength. The other hypotheses are the data model's: columns of equal length, a
  wavelength in a unit of length and a flux density in a unit of power per area per length.
\<close>

theorem propagate_flux_density_ratio:
  assumes "values_of (Filter.wavelengths F) \<noteq> []"
    and "length (response F) = length (values_of (Filter.wavelengths F))"
    and "length (values_of (Spectrum.flux_density s)) = length (values_of (Spectrum.wavelengths s))"
    and "is_equivalent (unit_of (Filter.wavelengths F)) (unit_of (Spectrum.wavelengths s))"
    and "is_equivalent (unit_of (Spectrum.wavelengths s)) metre"
    and "is_equivalent (unit_of (Spectrum.flux_density s)) watt_per_m3"
    and "samples_in_support F s \<noteq> []"
  shows "\<exists>top' bottom'.
           simps (numerator_samples F s) (map snd (samples_in_support F s)) = Inr top' \<and>
           simps (denominator_samples F s) (map snd (samples_in_support F s)) = Inr bottom' \<and>
           propagate_flux_density F s =
             Inr \<lparr>value_of = np_true_divide top' bottom', q_unit = Jy\<rparr>"
proof -
  let ?wl = "map snd (samples_in_support F s)"
  have sel: "select_samples F s = Inr (map fst (samples_in_support F s), ?wl)"
    using assms(1,4,3) by (rule select_samples_char)
  have ne: "?wl \<noteq> []" using assms(7) by simp
  obtain t where t: "simps (numerator_samples F s) ?wl = Inr t"
    using simps_value [of "numerator_samples F s" ?wl] ne
    by (auto simp: length_numerator_samples)
  obtain b where b: "simps (denominator_samples F s) ?wl = Inr b"
    using simps_value [of "denominator_samples F s" ?wl] ne
    by (auto simp: length_denominator_samples)
  have "propagate_flux_density F s = Inr \<lparr>value_of = np_true_divide t b, q_unit = Jy\<rparr>"
    by (simp add: propagate_char [OF sel assms(2,6,5)] t b)
  with t b show ?thesis by blast
qed

lemma example_wf:
  "values_of (Filter.wavelengths example_filter) \<noteq> []"
  "length (response example_filter) = length (values_of (Filter.wavelengths example_filter))"
  "length (values_of (Spectrum.flux_density example_spectrum)) =
     length (values_of (Spectrum.wavelengths example_spectrum))"
  "is_equivalent (unit_of (Filter.wavelengths example_filter))
     (unit_of (Spectrum.wavelengths example_spectrum))"
  "is_equivalent (unit_of (Spectrum.wavelengths example_spectrum)) metre"
  "is_equivalent (unit_of (Spectrum.flux_density example_spectrum)) watt_per_m3"
  by (simp_all add: example_filter_def example_spectrum_def is_equivalent_def nanometre_def
      metre_def)

lemma example_value:
  "propagate_flux_density example_filter example_spectrum =
     Inr \<lparr>value_of = Fin (8808480000000000 / 25932047617), q_unit = Jy\<rparr>"
  by (simp add: propagate_flux_density_def select_samples_def example_filter_def
      example_spectrum_def unit_to_def is_equivalent_def nanometre_def mask_index_def
      np_interp_def interp_at_def simps_def unit_div_def unit_mul_def metre_per_second_def
      watt_per_m3_def Jy_def np_true_divide_def c_value_def)

theorem propagate_flux_density_ratio_witness:
  "samples_in_support example_filter example_spectrum = [(3, 420), (5, 450), (7, 480)] \<and>
   (\<exists>top' bottom'.
      simps (numerator_samples example_filter example_spectrum) [420, 450, 480] = Inr top' \<and>
      simps (denominator_samples example_filter example_spectrum) [420, 450, 480] = Inr bottom' \<and>
      propagate_flux_density example_filter example_spectrum =
        Inr \<lparr>value_of = np_true_divide top' bottom', q_unit = Jy\<rparr>)"
proof -
  have ne: "samples_in_support example_filter example_spectrum \<noteq> []"
    by (simp add: example_samples)
  show ?thesis
    using propagate_flux_density_ratio [OF example_wf ne] by (simp add: example_samples)
qed

section \<open>A single sample in the support\<close>

lemma narrow_value:
  "propagate_flux_density example_filter narrow_spectrum = Inr \<lparr>value_of = NaN, q_unit = Jy\<rparr>"
  by (simp add: propagate_flux_density_def select_samples_def example_filter_def
      narrow_spectrum_def unit_to_def is_equivalent_def nanometre_def mask_index_def
      np_interp_def simps_def unit_div_def unit_mul_def metre_per_second_def watt_per_m3_def
      Jy_def np_true_divide_def)

text \<open>
  Claim C2, as the specification states it: with fewer than two samples strictly inside the
  filter's support the propagation fails with EmptyOverlapError. The program has no such
  check. With a single sample inside, both integrals are zero and the propagation returns
  not-a-number, in jansky.
\<close>

theorem propagate_one_sample_counterexample:
  "length (samples_in_support example_filter narrow_spectrum) < 2 \<and>
   propagate_flux_density example_filter narrow_spectrum =
     Inr \<lparr>value_of = NaN, q_unit = Jy\<rparr> \<and>
   propagate_flux_density example_filter narrow_spectrum \<noteq> Inl EmptyOverlapError"
  by (simp add: narrow_samples narrow_value)

text \<open>
  Claim C2, amended. With exactly one sample strictly inside the filter's support the
  propagation does not fail with EmptyOverlapError: it raises nothing and returns
  not-a-number, in jansky.
\<close>

theorem propagate_single_sample:
  assumes "values_of (Filter.wavelengths F) \<noteq> []"
    and "length (response F) = length (values_of (Filter.wavelengths F))"
    and "length (values_of (Spectrum.flux_density s)) = length (values_of (Spectrum.wavelengths s))"
    and "is_equivalent (unit_of (Filter.wavelengths F)) (unit_of (Spectrum.wavelengths s))"
    and "is_equivalent (unit_of (Spectrum.wavelengths s)) metre"
    and "is_equivalent (unit_of (Spectrum.flux_density s)) watt_per_m3"
    and "length (samples_in_support F s) = 1"
  shows "propagate_flux_density F s = Inr \<lparr>value_of = NaN, q_unit = Jy\<rparr> \<and>
         propagate_flux_density F s \<noteq> Inl EmptyOverlapError"
proof -
  let ?wl = "map snd (samples_in_support F s)"
  have sel: "select_samples F s = Inr (map fst (samples_in_support F s), ?wl)"
    using assms(1,4,3) by (rule select_samples_char)
  note char = propagate_char [OF sel assms(2,6,5)]
  obtain p where one: "samples_in_support F s = [p]"
    using assms(7) by (cases "samples_in_support F s") auto
  obtain f w where p: "p = (f, w)" by (cases p)
  have "propagate_flux_density F s = Inr \<lparr>value_of = NaN, q_unit = Jy\<rparr>"
    by (simp add: char numerator_samples_def denominator_samples_def one p simps_single
        np_true_divide_def)
  then show ?thesis by simp
qed

lemma narrow_wf:
  "values_of (Filter.wavelengths example_filter) \<noteq> []"
  "length (response example_filter) = length (values_of (Filter.wavelengths example_filter))"
  "length (values_of (Spectrum.flux_density narrow_spectrum)) =
     length (values_of (Spectrum.wavelengths narrow_spectrum))"
  "is_equivalent (unit_of (Filter.wavelengths example_filter))
     (unit_of (Spectrum.wavelengths narrow_spectrum))"
  "is_equivalent (unit_of (Spectrum.wavelengths narrow_spectrum)) metre"
  "is_equivalent (unit_of (Spectrum.flux_density narrow_spectrum)) watt_per_m3"
  by (simp_all add: example_filter_def narrow_spectrum_def is_equivalent_def nanometre_def
      metre_def)

theorem propagate_single_sample_witness:
  "length (samples_in_support example_filter narrow_spectrum) = 1 \<and>
   propagate_flux_density example_filter narrow_spectrum =
     Inr \<lparr>value_of = NaN, q_unit = Jy\<rparr>"
proof -
  have one: "length (samples_in_support example_filter narrow_spectrum) = 1"
    by (simp add: narrow_samples)
  show ?thesis
    using propagate_single_sample [OF narrow_wf one] by (simp add: narrow_samples)
qed

section \<open>Locality of the propagation\<close>

lemma propagate_depends_on_selection:
  assumes "select_samples F s1 = select_samples F s2"
    and "unit_of (Spectrum.wavelengths s1) = unit_of (Spectrum.wavelengths s2)"
    and "unit_of (Spectrum.flux_density s1) = unit_of (Spectrum.flux_density s2)"
  shows "propagate_flux_density F s1 = propagate_flux_density F s2"
  by (simp add: propagate_flux_density_def Let_def assms)

text \<open>
  Claim C10. Two spectra, in the same units, that have the same samples strictly inside the
  filter's support, sample for sample, propagate to the same result: what lies outside the
  support has no influence.
\<close>

theorem propagate_locality:
  assumes "length (values_of (Spectrum.flux_density s1)) =
           length (values_of (Spectrum.wavelengths s1))"
    and "length (values_of (Spectrum.flux_density s2)) =
         length (values_of (Spectrum.wavelengths s2))"
    and "unit_of (Spectrum.wavelengths s1) = unit_of (Spectrum.wavelengths s2)"
    and "unit_of (Spectrum.flux_density s1) = unit_of (Spectrum.flux_density s2)"
    and "samples_in_support F s1 = samples_in_support F s2"
  shows "propagate_flux_density F s1 = propagate_flux_density F s2"
proof -
  have "select_samples F s1 = select_samples F s2"
  proof (cases "values_of (Filter.wavelengths F) = []")
    case True
    then show ?thesis by (simp add: select_samples_no_grid)
  next
    case grid: False
    show ?thesis
    proof (cases "is_equivalent (unit_of (Filter.wavelengths F))
                    (unit_of (Spectrum.wavelengths s1))")
      case False
      then have "\<not> is_equivalent (unit_of (Filter.wavelengths F))
                    (unit_of (Spectrum.wavelengths s2))"
        using assms(3) by simp
      with False grid show ?thesis by (simp add: select_samples_units)
    next
      case True
      then have "is_equivalent (unit_of (Filter.wavelengths F))
                   (unit_of (Spectrum.wavelengths s2))"
        using assms(3) by simp
      with True grid assms(1,2,5) show ?thesis by (simp add: select_samples_char)
    qed
  qed
  then show ?thesis using assms(3,4) by (rule propagate_depends_on_selection)
qed

lemma other_samples:
  "samples_in_support example_filter other_spectrum = [(3, 420), (5, 450), (7, 480)]"
  by (simp add: samples_in_support_def in_support_def example_filter_def other_spectrum_def
      nanometre_def)

theorem propagate_locality_witness:
  "samples_in_support example_filter example_spectrum =
     samples_in_support example_filter other_spectrum \<and>
   example_spectrum \<noteq> other_spectrum \<and>
   propagate_flux_density example_filter other_spectrum =
     Inr \<lparr>value_of = Fin (8808480000000000 / 25932047617), q_unit = Jy\<rparr>"
proof -
  have 1: "length (values_of (Spectrum.flux_density example_spectrum)) =
           length (values_of (Spectrum.wavelengths example_spectrum))"
    by (simp add: example_spectrum_def)
  have 2: "length (values_of (Spectrum.flux_density other_spectrum)) =
           length (values_of (Spectrum.wavelengths other_spectrum))"
    by (simp add: other_spectrum_def)
  have 3: "unit_of (Spectrum.wavelengths example_spectrum) =
           unit_of (Spectrum.wavelengths other_spectrum)"
    by (simp add: example_spectrum_def other_spectrum_def)
  have 4: "unit_of (Spectrum.flux_density example_spectrum) =
           unit_of (Spectrum.flux_density other_spectrum)"
    by (simp add: example_spectrum_def other_spectrum_def)
  have 5: "samples_in_support example_filter example_spectrum =
           samples_in_support example_filter other_spectrum"
    by (simp add: example_samples other_samples)
  have 6: "example_spectrum \<noteq> other_spectrum"
    by (simp add: example_spectrum_def other_spectrum_def)
  show ?thesis
    using propagate_locality [OF 1 2 3 4 5] 5 6 by (simp add: example_value)
qed

section \<open>Colour\<close>

lemma fneg_fsub: "fneg (fsub a b) = fsub b a"
  by (cases a; cases b) simp_all

text \<open>
  Claim C7. When both propagations and both magnitude conversions return, the colour of
  \<open>(A, B)\<close> is the magnitude through \<open>A\<close> minus the magnitude through \<open>B\<close>, and it is the
  negation of the colour of \<open>(B, A)\<close>. The equality is that of the values; on not-a-number
  Python's \<^verbatim>\<open>==\<close> is false whatever the operands.
\<close>

theorem Colour_antisymmetric:
  assumes "propagate_flux_density A s = Inr fa" and "propagate_flux_density B s = Inr fb"
    and "flux2ABMag fa = Inr ma" and "flux2ABMag fb = Inr mb"
  shows "Colour_call (Colour A B) s = Inr (fsub ma mb) \<and>
         Colour_call (Colour B A) s = Inr (fsub mb ma) \<and>
         fsub ma mb = fneg (fsub mb ma)"
  using assms by (simp add: fneg_fsub)

lemma flat_value:
  "propagate_flux_density flat_filter example_spectrum =
     Inr \<lparr>value_of = Fin (4903200000000000 / 14411451731), q_unit = Jy\<rparr>"
  by (simp add: propagate_flux_density_def select_samples_def flat_filter_def
      example_spectrum_def unit_to_def is_equivalent_def nanometre_def mask_index_def
      np_interp_def interp_at_def simps_def unit_div_def unit_mul_def metre_per_second_def
      watt_per_m3_def Jy_def np_true_divide_def c_value_def)

lemma example_magnitude:
  "flux2ABMag \<lparr>value_of = Fin (8808480000000000 / 25932047617), q_unit = Jy\<rparr> =
     Inr (Fin (- 2.5 * log 10 (8808480000000000 / 25932047617) - 48.6))"
  by (simp add: flux2ABMag_def quantity_to_Jy_Jy)

lemma flat_magnitude:
  "flux2ABMag \<lparr>value_of = Fin (4903200000000000 / 14411451731), q_unit = Jy\<rparr> =
     Inr (Fin (- 2.5 * log 10 (4903200000000000 / 14411451731) - 48.6))"
  by (simp add: flux2ABMag_def quantity_to_Jy_Jy)

theorem Colour_antisymmetric_witness:
  "Colour_call (Colour example_filter flat_filter) example_spectrum =
     Inr (Fin ((- 2.5 * log 10 (8808480000000000 / 25932047617) - 48.6) -
               (- 2.5 * log 10 (4903200000000000 / 14411451731) - 48.6))) \<and>
   Colour_call (Colour flat_filter example_filter) example_spectrum =
     Inr (Fin ((- 2.5 * log 10 (4903200000000000 / 14411451731) - 48.6) -
               (- 2.5 * log 10 (8808480000000000 / 25932047617) - 48.6)))"
  using Colour_antisymmetric [OF example_value flat_value example_magnitude flat_magnitude]
  by (simp only: fsub.simps)

section \<open>Display\<close>

text \<open>
  Claim C9, as the specification states it: a filter without a name displays an explicit
  "unnamed" marker, and so does a colour of such filters. The program formats the name as it
  is, and None is rendered as the text None.
\<close>

theorem Filter_repr_unnamed_counterexample:
  "name example_filter = None \<and>
   Filter_repr example_filter = ''<Filter name=None>'' \<and>
   \<not> contains (Filter_repr example_filter) ''unnamed'' \<and>
   Colour_repr (Colour example_filter example_filter) = ''$None - None$'' \<and>
   \<not> contains (Colour_repr (Colour example_filter example_filter)) ''unnamed''"
  by (simp add: Filter_repr_def format_name_def example_filter_def)

text \<open>
  Claim C9, amended. A filter whose name is absent displays as \<^verbatim>\<open><Filter name=None>\<close>, and a
  colour of two such filters as \<^verbatim>\<open>$None - None$\<close>.
\<close>

theorem repr_of_absent_name:
  "Filter_repr (F\<lparr>name := None\<rparr>) = ''<Filter name=None>'' \<and>
   Colour_repr (Colour (A\<lparr>name := None\<rparr>) (B\<lparr>name := None\<rparr>)) = ''$None - None$''"
  by (simp add: Filter_repr_def format_name_def)

end
